theory Spec2Isabelle
  imports Complex_Main "HOL-Library.Word" "HOL-Library.Multiset"
begin

unbundle bit_operations_syntax

section \<open>The tracking SDK as seen by hello\_ar\_application.cc\<close>

text \<open>
  The application only sequences calls into the tracking SDK, the OpenGL state machine
  and its four renderers. The model is a function from the answers of these callees
  (an environment record per invocation) to the new application state and the list of
  calls made, in program order. Pointers are handles; \<open>None\<close> is \<open>nullptr\<close>.
\<close>

type_synonym handle = nat

text \<open>
  Enumerations of the SDK header. The application compares an \<open>ArStatus\<close> with
  \<open>AR_SUCCESS\<close> only, so every other code is \<open>AR_ERROR n\<close>.
\<close>

datatype ArStatus = AR_SUCCESS | AR_ERROR nat

datatype ArTrackingState =
  AR_TRACKING_STATE_TRACKING | AR_TRACKING_STATE_PAUSED | AR_TRACKING_STATE_STOPPED

datatype ArTrackableType =
  AR_TRACKABLE_BASE_TRACKABLE | AR_TRACKABLE_PLANE | AR_TRACKABLE_POINT | AR_TRACKABLE_NOT_VALID

datatype ArLightEstimateState =
  AR_LIGHT_ESTIMATE_STATE_NOT_VALID | AR_LIGHT_ESTIMATE_STATE_VALID

text \<open>
  A \<open>glm::mat4\<close> is never inspected by this file: it is written by the SDK and handed
  to a renderer. \<open>Mat n\<close> is such a value; \<open>MatMul\<close> is the one product the
  application forms (\<open>projection_mat * view_mat\<close>).
\<close>

datatype mat4 = Mat nat | MatMul mat4 mat4

type_synonym vec3 = "real \<times> real \<times> real"

text \<open>
  Every call that leaves the translation unit, with the arguments that matter; the
  informational log lines (\<open>LOGI\<close>) are left out.
\<close>

datatype event =
    GlCall string
  | LogE string
  | ArSession_create ArStatus "handle option"
  | ArConfig_create "handle option"
  | ArSession_checkSupported handle ArStatus
  | ArSession_configure handle ArStatus
  | ArConfig_destroy handle
  | ArFrame_create "handle option"
  | ArSession_update ArStatus
  | ArFrame_acquireCamera handle
  | ArCamera_getViewMatrix handle mat4
  | ArCamera_getProjectionMatrix handle mat4
  | ArCamera_release handle
  | BackgroundRenderer_Draw
  | ArLightEstimate_create handle
  | ArFrame_getLightEstimate handle
  | ArLightEstimate_getState handle ArLightEstimateState
  | ArLightEstimate_getPixelIntensity handle real
  | ArLightEstimate_destroy handle
  | ArAnchor_getTrackingState handle ArTrackingState
  | GetTransformMatrixFromAnchor handle mat4
  | ObjRenderer_Draw mat4 mat4 mat4 real
  | ArTrackableList_create "handle option"
  | ArSession_getAllTrackables ArTrackableType handle
  | ArTrackableList_getSize handle nat
  | ArTrackableList_acquireItem handle nat handle
  | PlaneRenderer_Draw mat4 mat4 handle vec3
  | ArTrackable_release handle
  | ArTrackableList_destroy handle
  | ArFrame_acquirePointCloud ArStatus handle
  | PointCloudRenderer_Draw mat4 handle
  | ArPointCloud_release handle
  | ArHitResultList_create "handle option"
  | ArFrame_hitTest real real handle
  | ArHitResultList_getSize handle nat
  | ArHitResult_create "handle option"
  | ArHitResultList_getItem handle nat "handle option"
  | ArHitResult_acquireTrackable handle handle
  | ArTrackable_getType handle ArTrackableType
  | ArPose_create handle
  | ArHitResult_getHitPose handle handle
  | ArPlane_isPoseInPolygon handle handle int
  | ArPose_destroy handle
  | ArHitResult_acquireNewAnchor handle ArStatus handle
  | ArAnchor_release handle
  | ArHitResult_destroy handle
  | ArHitResultList_destroy handle

text \<open>\<open>CHECK(cond)\<close> of util.h ends the process when \<open>cond\<close> is false.\<close>

datatype error = CheckFailed string

section \<open>Application state\<close>

text \<open>
  The members of the class, without the trailing underscore of their C++ names (such a
  name is reserved in Isabelle). \<open>tracked_obj_set_\<close> is an unordered set of anchor
  pointers: a duplicate-free list, whose order stands for the iteration order of the
  container.
\<close>

record HelloArApplication =
  ar_session :: "handle option"
  ar_frame :: "handle option"
  tracked_obj_set :: "handle list"
  plane_color_map :: "handle \<rightharpoonup> vec3"
  plane_count :: int

definition set_insert :: "handle \<Rightarrow> handle list \<Rightarrow> handle list" where
  "set_insert a S = (if a \<in> set S then S else S @ [a])"

section \<open>Plane colours\<close>

definition kPlaneColorRgbaSize :: nat where
  "kPlaneColorRgbaSize = 16"

definition kPlaneColorRgba :: "32 word list" where
  "kPlaneColorRgba =
    [0xFFFFFFFF, 0xF44336FF, 0xE91E63FF, 0x9C27B0FF, 0x673AB7FF, 0x3F51B5FF,
     0x2196F3FF, 0x03A9F4FF, 0x00BCD4FF, 0x009688FF, 0x4CAF50FF, 0x8BC34AFF,
     0xCDDC39FF, 0xFFEB3BFF, 0xFFC107FF, 0xFF9800FF]"

text \<open>
  \<open>colorRgba\<close> is an \<open>int32_t\<close> holding the bits of the table entry, so \<open>>>\<close> is
  the arithmetic shift; the mask leaves a value from 0 to 255, which is divided by
  \<open>255.0f\<close>. The quotient is taken exactly here.
\<close>

definition rgba_component :: "32 word \<Rightarrow> nat \<Rightarrow> real" where
  "rgba_component colorRgba sh = real (unat (signed_drop_bit sh colorRgba AND 0xff)) / 255"

definition rgba_to_vec3 :: "32 word \<Rightarrow> vec3" where
  "rgba_to_vec3 colorRgba =
    (rgba_component colorRgba 24, rgba_component colorRgba 16, rgba_component colorRgba 8)"

text \<open>
  \<open>GetRandomPlaneColor\<close>, given the value \<open>std::rand()\<close> returns (from 0 to
  \<open>RAND_MAX\<close>, hence a \<open>nat\<close>).
\<close>

definition GetRandomPlaneColor :: "nat \<Rightarrow> vec3" where
  "GetRandomPlaneColor r = rgba_to_vec3 (kPlaneColorRgba ! (r mod kPlaneColorRgbaSize))"

section \<open>The constructor\<close>

record ctor_env =
  session_create_status :: ArStatus
  session_out :: "handle option"
  config_out :: "handle option"
  check_supported_status :: ArStatus
  configure_status :: ArStatus
  frame_out :: "handle option"

text \<open>
  The members other than \<open>ar_session_\<close> and \<open>ar_frame_\<close> get their values from the
  class declaration, which is a parameter here (\<open>members\<close>).
\<close>

definition HelloArApplication_ctor ::
  "ctor_env \<Rightarrow> HelloArApplication \<Rightarrow> error + (HelloArApplication \<times> event list)" where
  "HelloArApplication_ctor env members =
    (if session_create_status env \<noteq> AR_SUCCESS then Inl (CheckFailed ''ArSession_create'')
     else case session_out env of
       None \<Rightarrow> Inl (CheckFailed ''ar_session_'')
     | Some s \<Rightarrow>
        (case config_out env of
           None \<Rightarrow> Inl (CheckFailed ''ar_config'')
         | Some c \<Rightarrow>
            if check_supported_status env \<noteq> AR_SUCCESS
            then Inl (CheckFailed ''status == AR_SUCCESS'')
            else if configure_status env \<noteq> AR_SUCCESS
            then Inl (CheckFailed ''ArSession_configure'')
            else (case frame_out env of
                None \<Rightarrow> Inl (CheckFailed ''ar_frame_'')
              | Some f \<Rightarrow>
                 Inr (members\<lparr>ar_session := Some s, ar_frame := Some f\<rparr>,
                      [ArSession_create AR_SUCCESS (Some s),
                       ArConfig_create (Some c),
                       ArSession_checkSupported c AR_SUCCESS,
                       ArSession_configure c AR_SUCCESS,
                       ArConfig_destroy c,
                       ArFrame_create (Some f)]))))"

section \<open>OnDrawFrame\<close>

record frame_env =
  update_status :: ArStatus
  camera :: handle
  view_matrix :: mat4
  projection_matrix :: mat4
  light_estimate :: handle
  light_estimate_state :: ArLightEstimateState
  pixel_intensity :: real
  anchor_state :: "handle \<Rightarrow> ArTrackingState"
  anchor_transform :: "handle \<Rightarrow> mat4"
  trackable_list :: "handle option"
  plane_trackables :: "handle list"
  rand_values :: "nat \<Rightarrow> nat"
  point_cloud_status :: ArStatus
  point_cloud :: handle

definition gl_setup :: "event list" where
  "gl_setup =
    [GlCall ''glClearColor(0.9f, 0.9f, 0.9f, 1.0f)'',
     GlCall ''glClear(GL_DEPTH_BUFFER_BIT | GL_COLOR_BUFFER_BIT)'',
     GlCall ''glEnable(GL_CULL_FACE)'',
     GlCall ''glEnable(GL_DEPTH_TEST)'',
     GlCall ''glEnable(GL_BLEND)'',
     GlCall ''glBlendFunc(GL_SRC_ALPHA, GL_ONE_MINUS_SRC_ALPHA)'']"

text \<open>The loop over \<open>tracked_obj_set_\<close> (lines 153 to 161).\<close>

fun draw_anchors :: "frame_env \<Rightarrow> mat4 \<Rightarrow> mat4 \<Rightarrow> real \<Rightarrow> handle list \<Rightarrow> event list" where
  "draw_anchors env projection_mat view_mat light_intensity [] = []"
| "draw_anchors env projection_mat view_mat light_intensity (obj_iter # rest) =
    ArAnchor_getTrackingState obj_iter (anchor_state env obj_iter) #
    (if anchor_state env obj_iter = AR_TRACKING_STATE_TRACKING
     then [GetTransformMatrixFromAnchor obj_iter (anchor_transform env obj_iter),
           ObjRenderer_Draw projection_mat view_mat (anchor_transform env obj_iter)
             light_intensity]
     else []) @
    draw_anchors env projection_mat view_mat light_intensity rest"

text \<open>
  The loop over the plane list (lines 175 to 193): \<open>i\<close> is the loop index, \<open>k\<close> the
  number of \<open>std::rand()\<close> calls made so far in this frame. \<open>ArAsPlane\<close> is a cast,
  so the plane is the trackable's handle.
\<close>

fun draw_planes ::
  "frame_env \<Rightarrow> mat4 \<Rightarrow> mat4 \<Rightarrow> handle \<Rightarrow> nat \<Rightarrow> handle list \<Rightarrow> (handle \<rightharpoonup> vec3) \<Rightarrow> nat
    \<Rightarrow> (handle \<rightharpoonup> vec3) \<times> nat \<times> event list" where
  "draw_planes env projection_mat view_mat plane_list i [] cmap k = (cmap, k, [])"
| "draw_planes env projection_mat view_mat plane_list i (ar_plane # rest) cmap k =
    (case cmap ar_plane of
       Some color \<Rightarrow>
         (case draw_planes env projection_mat view_mat plane_list (Suc i) rest cmap k of
            (cmap', k', tr) \<Rightarrow>
              (cmap', k',
               [ArTrackableList_acquireItem plane_list i ar_plane,
                PlaneRenderer_Draw projection_mat view_mat ar_plane color,
                ArTrackable_release ar_plane] @ tr))
     | None \<Rightarrow>
         (let color = GetRandomPlaneColor (rand_values env k) in
          case draw_planes env projection_mat view_mat plane_list (Suc i) rest
                 (cmap(ar_plane \<mapsto> color)) (Suc k) of
            (cmap', k', tr) \<Rightarrow>
              (cmap', k',
               [ArTrackableList_acquireItem plane_list i ar_plane,
                PlaneRenderer_Draw projection_mat view_mat ar_plane color,
                ArTrackable_release ar_plane] @ tr)))"

definition OnDrawFrame ::
  "frame_env \<Rightarrow> HelloArApplication \<Rightarrow> error + (HelloArApplication \<times> event list)" where
  "OnDrawFrame env app =
    (let ar_camera = camera env;
         view_mat = view_matrix env;
         projection_mat = projection_matrix env;
         ar_light_estimate = light_estimate env;
         light_intensity =
           (if light_estimate_state env = AR_LIGHT_ESTIMATE_STATE_VALID
            then pixel_intensity env else 0.8);
         tr_update =
           gl_setup @ [ArSession_update (update_status env)] @
           (if update_status env \<noteq> AR_SUCCESS
            then [LogE ''HelloArApplication::OnDrawFrame ArSession_update error'']
            else []);
         tr_camera =
           [ArFrame_acquireCamera ar_camera,
            ArCamera_getViewMatrix ar_camera view_mat,
            ArCamera_getProjectionMatrix ar_camera projection_mat,
            ArCamera_release ar_camera,
            BackgroundRenderer_Draw];
         tr_light =
           [ArLightEstimate_create ar_light_estimate,
            ArFrame_getLightEstimate ar_light_estimate,
            ArLightEstimate_getState ar_light_estimate (light_estimate_state env)] @
           (if light_estimate_state env = AR_LIGHT_ESTIMATE_STATE_VALID
            then [ArLightEstimate_getPixelIntensity ar_light_estimate (pixel_intensity env)]
            else []) @
           [ArLightEstimate_destroy ar_light_estimate];
         tr_andy =
           draw_anchors env projection_mat view_mat light_intensity (tracked_obj_set app)
     in case trackable_list env of
          None \<Rightarrow> Inl (CheckFailed ''plane_list != nullptr'')
        | Some plane_list \<Rightarrow>
           (let plane_list_size = length (plane_trackables env) in
            case draw_planes env projection_mat view_mat plane_list 0 (plane_trackables env)
                   (plane_color_map app) 0 of
              (cmap, k, tr_loop) \<Rightarrow>
                Inr (app\<lparr>plane_color_map := cmap, plane_count := int plane_list_size\<rparr>,
                     tr_update @ tr_camera @ tr_light @ tr_andy @
                     [ArTrackableList_create (Some plane_list),
                      ArSession_getAllTrackables AR_TRACKABLE_PLANE plane_list,
                      ArTrackableList_getSize plane_list plane_list_size] @
                     tr_loop @
                     [ArTrackableList_destroy plane_list,
                      ArFrame_acquirePointCloud (point_cloud_status env) (point_cloud env)] @
                     (if point_cloud_status env = AR_SUCCESS
                      then [PointCloudRenderer_Draw (MatMul projection_mat view_mat)
                              (point_cloud env),
                            ArPointCloud_release (point_cloud env)]
                      else []))))"

section \<open>OnTouched\<close>

text \<open>What the SDK answers for the hit result at one index of the hit list.\<close>

record hit =
  hit_result :: "handle option"
  hit_trackable :: handle
  hit_trackable_type :: ArTrackableType
  hit_pose :: handle
  in_polygon :: int
  new_anchor_status :: ArStatus
  new_anchor :: handle
  new_anchor_state :: ArTrackingState

record touch_env =
  hit_result_list_out :: "handle option"
  hits :: "hit list"

text \<open>
  How one pass through the body of the \<open>for\<close> loop ends: at the end of the body or at a
  \<open>continue\<close>, or by leaving \<open>OnTouched\<close> with \<open>return\<close>.
\<close>

datatype control = Continue | Return

text \<open>
  The body of the loop over the hit list (lines 223 to 273), for index \<open>i\<close> and the
  answers \<open>h\<close> of the SDK there; \<open>S\<close> is \<open>tracked_obj_set_\<close>.
\<close>

definition hit_body ::
  "handle \<Rightarrow> nat \<Rightarrow> hit \<Rightarrow> handle list \<Rightarrow> control \<times> handle list \<times> event list" where
  "hit_body hit_result_list i h S =
    (let tr_item =
           [ArHitResult_create (hit_result h),
            ArHitResultList_getItem hit_result_list i (hit_result h)]
     in case hit_result h of
       None \<Rightarrow>
         (Return, S,
          tr_item @ [LogE ''HelloArApplication::OnTouched ArHitResultList_getItem error''])
     | Some ar_hit_result \<Rightarrow>
        (let ar_trackable = hit_trackable h;
             tr_type =
               [ArHitResult_acquireTrackable ar_hit_result ar_trackable,
                ArTrackable_getType ar_trackable (hit_trackable_type h)]
         in if hit_trackable_type h \<noteq> AR_TRACKABLE_PLANE then
              (Continue, S, tr_item @ tr_type @ [ArTrackable_release ar_trackable])
            else
              (let ar_pose = hit_pose h;
                   tr_pose =
                     [ArPose_create ar_pose,
                      ArHitResult_getHitPose ar_hit_result ar_pose,
                      ArPlane_isPoseInPolygon ar_trackable ar_pose (in_polygon h),
                      ArTrackable_release ar_trackable,
                      ArPose_destroy ar_pose]
               in if in_polygon h = 0 then
                    (Continue, S, tr_item @ tr_type @ tr_pose)
                  else
                    (let anchor = new_anchor h;
                         tr_anchor =
                           [ArHitResult_acquireNewAnchor ar_hit_result (new_anchor_status h)
                              anchor]
                     in if new_anchor_status h \<noteq> AR_SUCCESS then
                          (Return, S,
                           tr_item @ tr_type @ tr_pose @ tr_anchor @
                           [LogE
                             ''HelloArApplication::OnTouched ArHitResult_acquireNewAnchor error''])
                        else
                          (let tr_state =
                                 [ArAnchor_getTrackingState anchor (new_anchor_state h)]
                           in if new_anchor_state h \<noteq> AR_TRACKING_STATE_TRACKING then
                                (Continue, S,
                                 tr_item @ tr_type @ tr_pose @ tr_anchor @ tr_state @
                                 [ArAnchor_release anchor])
                              else
                                (Continue, set_insert anchor S,
                                 tr_item @ tr_type @ tr_pose @ tr_anchor @ tr_state @
                                 [ArHitResult_destroy ar_hit_result]))))))"

text \<open>
  The loop (line 222) over the answers for the indices from \<open>i\<close> on. The first
  component of the result is true when the body left \<open>OnTouched\<close> by \<open>return\<close>.
\<close>

fun hit_loop ::
  "handle \<Rightarrow> nat \<Rightarrow> hit list \<Rightarrow> handle list \<Rightarrow> bool \<times> handle list \<times> event list" where
  "hit_loop hit_result_list i [] S = (False, S, [])"
| "hit_loop hit_result_list i (h # rest) S =
    (case hit_body hit_result_list i h S of
       (Return, S', tr) \<Rightarrow> (True, S', tr)
     | (Continue, S', tr) \<Rightarrow>
        (case hit_loop hit_result_list (Suc i) rest S' of
           (ret, S'', tr') \<Rightarrow> (ret, S'', tr @ tr')))"

definition OnTouched ::
  "touch_env \<Rightarrow> real \<Rightarrow> real \<Rightarrow> HelloArApplication
    \<Rightarrow> error + (HelloArApplication \<times> event list)" where
  "OnTouched env x y app =
    (if ar_frame app \<noteq> None \<and> ar_session app \<noteq> None then
       (case hit_result_list_out env of
          None \<Rightarrow> Inl (CheckFailed ''hit_result_list'')
        | Some hit_result_list \<Rightarrow>
           (case hit_loop hit_result_list 0 (hits env) (tracked_obj_set app) of
              (ret, S, tr) \<Rightarrow>
                Inr (app\<lparr>tracked_obj_set := S\<rparr>,
                     [ArHitResultList_create (Some hit_result_list),
                      ArFrame_hitTest x y hit_result_list,
                      ArHitResultList_getSize hit_result_list (length (hits env))] @
                     tr @
                     (if ret then [] else [ArHitResultList_destroy hit_result_list]))))
     else Inr (app, []))"

section \<open>Reading a list of calls\<close>

text \<open>
  The tracking objects a call hands out, takes back, or is given. A failed acquisition
  hands out nothing.
\<close>

datatype obj =
    Config handle
  | Camera handle
  | LightEstimate handle
  | TrackableList handle
  | Trackable handle
  | PointCloud handle
  | HitResultList handle
  | HitResult handle
  | Pose handle
  | Anchor handle

definition acquired :: "event \<Rightarrow> obj list" where
  "acquired e =
    (case e of
       ArConfig_create (Some c) \<Rightarrow> [Config c]
     | ArFrame_acquireCamera c \<Rightarrow> [Camera c]
     | ArLightEstimate_create l \<Rightarrow> [LightEstimate l]
     | ArTrackableList_create (Some l) \<Rightarrow> [TrackableList l]
     | ArTrackableList_acquireItem l i t \<Rightarrow> [Trackable t]
     | ArFrame_acquirePointCloud st pc \<Rightarrow> (if st = AR_SUCCESS then [PointCloud pc] else [])
     | ArHitResultList_create (Some l) \<Rightarrow> [HitResultList l]
     | ArHitResult_create (Some r) \<Rightarrow> [HitResult r]
     | ArHitResult_acquireTrackable r t \<Rightarrow> [Trackable t]
     | ArPose_create p \<Rightarrow> [Pose p]
     | ArHitResult_acquireNewAnchor r st a \<Rightarrow> (if st = AR_SUCCESS then [Anchor a] else [])
     | _ \<Rightarrow> [])"

definition released :: "event \<Rightarrow> obj list" where
  "released e =
    (case e of
       ArConfig_destroy c \<Rightarrow> [Config c]
     | ArCamera_release c \<Rightarrow> [Camera c]
     | ArLightEstimate_destroy l \<Rightarrow> [LightEstimate l]
     | ArTrackable_release t \<Rightarrow> [Trackable t]
     | ArTrackableList_destroy l \<Rightarrow> [TrackableList l]
     | ArPointCloud_release pc \<Rightarrow> [PointCloud pc]
     | ArPose_destroy p \<Rightarrow> [Pose p]
     | ArAnchor_release a \<Rightarrow> [Anchor a]
     | ArHitResult_destroy r \<Rightarrow> [HitResult r]
     | ArHitResultList_destroy l \<Rightarrow> [HitResultList l]
     | _ \<Rightarrow> [])"

definition used :: "event \<Rightarrow> obj list" where
  "used e =
    (case e of
       ArSession_checkSupported c st \<Rightarrow> [Config c]
     | ArSession_configure c st \<Rightarrow> [Config c]
     | ArConfig_destroy c \<Rightarrow> [Config c]
     | ArCamera_getViewMatrix c m \<Rightarrow> [Camera c]
     | ArCamera_getProjectionMatrix c m \<Rightarrow> [Camera c]
     | ArCamera_release c \<Rightarrow> [Camera c]
     | ArFrame_getLightEstimate l \<Rightarrow> [LightEstimate l]
     | ArLightEstimate_getState l st \<Rightarrow> [LightEstimate l]
     | ArLightEstimate_getPixelIntensity l v \<Rightarrow> [LightEstimate l]
     | ArLightEstimate_destroy l \<Rightarrow> [LightEstimate l]
     | ArAnchor_getTrackingState a st \<Rightarrow> [Anchor a]
     | GetTransformMatrixFromAnchor a m \<Rightarrow> [Anchor a]
     | ArAnchor_release a \<Rightarrow> [Anchor a]
     | ArSession_getAllTrackables ty l \<Rightarrow> [TrackableList l]
     | ArTrackableList_getSize l n \<Rightarrow> [TrackableList l]
     | ArTrackableList_acquireItem l i t \<Rightarrow> [TrackableList l]
     | ArTrackableList_destroy l \<Rightarrow> [TrackableList l]
     | PlaneRenderer_Draw pm vm p c \<Rightarrow> [Trackable p]
     | ArTrackable_getType t ty \<Rightarrow> [Trackable t]
     | ArTrackable_release t \<Rightarrow> [Trackable t]
     | PointCloudRenderer_Draw m pc \<Rightarrow> [PointCloud pc]
     | ArPointCloud_release pc \<Rightarrow> [PointCloud pc]
     | ArFrame_hitTest x y l \<Rightarrow> [HitResultList l]
     | ArHitResultList_getSize l n \<Rightarrow> [HitResultList l]
     | ArHitResultList_getItem l i (Some r) \<Rightarrow> [HitResultList l, HitResult r]
     | ArHitResultList_getItem l i None \<Rightarrow> [HitResultList l]
     | ArHitResultList_destroy l \<Rightarrow> [HitResultList l]
     | ArHitResult_acquireTrackable r t \<Rightarrow> [HitResult r]
     | ArHitResult_getHitPose r p \<Rightarrow> [HitResult r, Pose p]
     | ArPlane_isPoseInPolygon t p b \<Rightarrow> [Trackable t, Pose p]
     | ArPose_destroy p \<Rightarrow> [Pose p]
     | ArHitResult_acquireNewAnchor r st a \<Rightarrow> [HitResult r]
     | ArHitResult_destroy r \<Rightarrow> [HitResult r]
     | _ \<Rightarrow> [])"

text \<open>
  Running a list of calls against the bag of references the application holds: a call
  may only be given objects that are held; what it takes back leaves the bag, what it
  hands out enters it. \<open>None\<close> is a call on an object that is no longer held.
\<close>

fun run_live :: "obj multiset \<Rightarrow> event list \<Rightarrow> obj multiset option" where
  "run_live L [] = Some L"
| "run_live L (e # es) =
    (if set (used e) \<subseteq> set_mset L
     then run_live (L - mset (released e) + mset (acquired e)) es
     else None)"

text \<open>What a list of calls acquired and did not give back.\<close>

definition leaked :: "event list \<Rightarrow> obj multiset" where
  "leaked tr = mset (concat (map acquired tr)) - mset (concat (map released tr))"

text \<open>The stages of a frame, in the order of the function body.\<close>

datatype draw_phase =
    PhaseGlSetup
  | PhaseUpdate
  | PhaseCameraAcquire
  | PhaseCameraMatrices
  | PhaseCameraRelease
  | PhaseBackground
  | PhaseLight
  | PhaseAnchors
  | PhasePlanes
  | PhasePointCloud
  | PhaseOther

definition phase_of :: "event \<Rightarrow> draw_phase" where
  "phase_of e =
    (case e of
       GlCall s \<Rightarrow> PhaseGlSetup
     | ArSession_update st \<Rightarrow> PhaseUpdate
     | LogE s \<Rightarrow> PhaseUpdate
     | ArFrame_acquireCamera c \<Rightarrow> PhaseCameraAcquire
     | ArCamera_getViewMatrix c m \<Rightarrow> PhaseCameraMatrices
     | ArCamera_getProjectionMatrix c m \<Rightarrow> PhaseCameraMatrices
     | ArCamera_release c \<Rightarrow> PhaseCameraRelease
     | BackgroundRenderer_Draw \<Rightarrow> PhaseBackground
     | ArLightEstimate_create l \<Rightarrow> PhaseLight
     | ArFrame_getLightEstimate l \<Rightarrow> PhaseLight
     | ArLightEstimate_getState l st \<Rightarrow> PhaseLight
     | ArLightEstimate_getPixelIntensity l v \<Rightarrow> PhaseLight
     | ArLightEstimate_destroy l \<Rightarrow> PhaseLight
     | ArAnchor_getTrackingState a st \<Rightarrow> PhaseAnchors
     | GetTransformMatrixFromAnchor a m \<Rightarrow> PhaseAnchors
     | ObjRenderer_Draw pm vm mm li \<Rightarrow> PhaseAnchors
     | ArTrackableList_create l \<Rightarrow> PhasePlanes
     | ArSession_getAllTrackables ty l \<Rightarrow> PhasePlanes
     | ArTrackableList_getSize l n \<Rightarrow> PhasePlanes
     | ArTrackableList_acquireItem l i t \<Rightarrow> PhasePlanes
     | PlaneRenderer_Draw pm vm p c \<Rightarrow> PhasePlanes
     | ArTrackable_release t \<Rightarrow> PhasePlanes
     | ArTrackableList_destroy l \<Rightarrow> PhasePlanes
     | ArFrame_acquirePointCloud st pc \<Rightarrow> PhasePointCloud
     | PointCloudRenderer_Draw m pc \<Rightarrow> PhasePointCloud
     | ArPointCloud_release pc \<Rightarrow> PhasePointCloud
     | _ \<Rightarrow> PhaseOther)"

text \<open>The calls that put an Andy on the screen.\<close>

definition is_andy_call :: "event \<Rightarrow> bool" where
  "is_andy_call e =
    (case e of
       GetTransformMatrixFromAnchor a m \<Rightarrow> True
     | ObjRenderer_Draw pm vm mm li \<Rightarrow> True
     | _ \<Rightarrow> False)"

text \<open>The value of \<open>light_intensity\<close> after line 146.\<close>

definition light_intensity_of :: "frame_env \<Rightarrow> real" where
  "light_intensity_of env =
    (if light_estimate_state env = AR_LIGHT_ESTIMATE_STATE_VALID then pixel_intensity env
     else 0.8)"

text \<open>The stages of a frame after \<open>ArSession_update\<close>.\<close>

definition scene_phases :: "HelloArApplication \<Rightarrow> draw_phase list" where
  "scene_phases app =
    [PhaseCameraAcquire, PhaseCameraMatrices, PhaseCameraRelease, PhaseBackground, PhaseLight] @
    (if tracked_obj_set app = [] then [] else [PhaseAnchors]) @
    [PhasePlanes, PhasePointCloud]"

text \<open>The colours of the table, as \<open>GetRandomPlaneColor\<close> converts them.\<close>

definition palette :: "vec3 set" where
  "palette = rgba_to_vec3 ` set kPlaneColorRgba"

text \<open>The new anchors of the hit results whose index satisfies \<open>P\<close>.\<close>

definition picked :: "(nat \<Rightarrow> bool) \<Rightarrow> hit list \<Rightarrow> handle set" where
  "picked P hs = {new_anchor (hs ! j) | j. j < length hs \<and> P j}"



section \<open>Sample inputs\<close>

text \<open>
  An application with two anchors and one coloured plane, and answers of the SDK for a
  tap and for a frame, with the call lists the functions produce on them.
\<close>

definition app0 :: HelloArApplication where
  "app0 =
    \<lparr>ar_session = Some 1, ar_frame = Some 2, tracked_obj_set = [10, 11],
     plane_color_map = [22 \<mapsto> rgba_to_vec3 0x2196F3FF], plane_count = 0\<rparr>"

definition app_null :: HelloArApplication where
  "app_null = app0\<lparr>ar_frame := None\<rparr>"

definition touch_env0 :: touch_env where
  "touch_env0 = \<lparr>hit_result_list_out = Some 30, hits = []\<rparr>"

definition hit_point :: hit where
  "hit_point =
    \<lparr>hit_result = Some 31, hit_trackable = 32, hit_trackable_type = AR_TRACKABLE_POINT,
     hit_pose = 33, in_polygon = 0, new_anchor_status = AR_SUCCESS, new_anchor = 42,
     new_anchor_state = AR_TRACKING_STATE_TRACKING\<rparr>"

definition hit_a :: hit where
  "hit_a =
    \<lparr>hit_result = Some 34, hit_trackable = 20, hit_trackable_type = AR_TRACKABLE_PLANE,
     hit_pose = 35, in_polygon = 1, new_anchor_status = AR_SUCCESS, new_anchor = 40,
     new_anchor_state = AR_TRACKING_STATE_TRACKING\<rparr>"

definition hit_b :: hit where
  "hit_b =
    \<lparr>hit_result = Some 36, hit_trackable = 22, hit_trackable_type = AR_TRACKABLE_PLANE,
     hit_pose = 37, in_polygon = 1, new_anchor_status = AR_SUCCESS, new_anchor = 41,
     new_anchor_state = AR_TRACKING_STATE_TRACKING\<rparr>"


definition touch_env1 :: touch_env where
  "touch_env1 = \<lparr>hit_result_list_out = Some 30, hits = [hit_point]\<rparr>"

definition touch_env2 :: touch_env where
  "touch_env2 = \<lparr>hit_result_list_out = Some 30, hits = [hit_a, hit_b]\<rparr>"


definition frame_env0 :: frame_env where
  "frame_env0 =
    \<lparr>update_status = AR_ERROR 1, camera = 3, view_matrix = Mat 0, projection_matrix = Mat 1,
     light_estimate = 4, light_estimate_state = AR_LIGHT_ESTIMATE_STATE_VALID,
     pixel_intensity = 1 / 2,
     anchor_state = (\<lambda>a. if a = 10 then AR_TRACKING_STATE_TRACKING else AR_TRACKING_STATE_PAUSED),
     anchor_transform = (\<lambda>a. Mat (100 + a)),
     trackable_list = Some 5, plane_trackables = [20, 22, 20], rand_values = (\<lambda>k. 17 + k),
     point_cloud_status = AR_SUCCESS, point_cloud = 6\<rparr>"

definition ctor_env0 :: ctor_env where
  "ctor_env0 =
    \<lparr>session_create_status = AR_SUCCESS, session_out = Some 1, config_out = Some 7,
     check_supported_status = AR_SUCCESS, configure_status = AR_SUCCESS, frame_out = Some 2\<rparr>"

definition members0 :: HelloArApplication where
  "members0 =
    \<lparr>ar_session = None, ar_frame = None, tracked_obj_set = [], plane_color_map = Map.empty,
     plane_count = 0\<rparr>"

definition touch_trace1 :: "event list" where
  "touch_trace1 =
    [ArHitResultList_create (Some 30), ArFrame_hitTest 0 0 30,
     ArHitResultList_getSize 30 1,
     ArHitResult_create (Some 31), ArHitResultList_getItem 30 0 (Some 31),
     ArHitResult_acquireTrackable 31 32, ArTrackable_getType 32 AR_TRACKABLE_POINT,
     ArTrackable_release 32,
     ArHitResultList_destroy 30]"

definition touch_trace2 :: "event list" where
  "touch_trace2 =
    [ArHitResultList_create (Some 30), ArFrame_hitTest 0 0 30,
     ArHitResultList_getSize 30 2,
     ArHitResult_create (Some 34), ArHitResultList_getItem 30 0 (Some 34),
     ArHitResult_acquireTrackable 34 20, ArTrackable_getType 20 AR_TRACKABLE_PLANE,
     ArPose_create 35, ArHitResult_getHitPose 34 35, ArPlane_isPoseInPolygon 20 35 1,
     ArTrackable_release 20, ArPose_destroy 35,
     ArHitResult_acquireNewAnchor 34 AR_SUCCESS 40,
     ArAnchor_getTrackingState 40 AR_TRACKING_STATE_TRACKING,
     ArHitResult_destroy 34,
     ArHitResult_create (Some 36), ArHitResultList_getItem 30 1 (Some 36),
     ArHitResult_acquireTrackable 36 22, ArTrackable_getType 22 AR_TRACKABLE_PLANE,
     ArPose_create 37, ArHitResult_getHitPose 36 37, ArPlane_isPoseInPolygon 22 37 1,
     ArTrackable_release 22, ArPose_destroy 37,
     ArHitResult_acquireNewAnchor 36 AR_SUCCESS 41,
     ArAnchor_getTrackingState 41 AR_TRACKING_STATE_TRACKING,
     ArHitResult_destroy 36,
     ArHitResultList_destroy 30]"


definition app0_drawn :: HelloArApplication where
  "app0_drawn =
    app0\<lparr>plane_color_map := (plane_color_map app0)(20 \<mapsto> GetRandomPlaneColor 17),
         plane_count := 3\<rparr>"

definition frame_trace0 :: "event list" where
  "frame_trace0 =
    gl_setup @
    [ArSession_update (AR_ERROR 1),
     LogE ''HelloArApplication::OnDrawFrame ArSession_update error'',
     ArFrame_acquireCamera 3, ArCamera_getViewMatrix 3 (Mat 0),
     ArCamera_getProjectionMatrix 3 (Mat 1), ArCamera_release 3,
     BackgroundRenderer_Draw,
     ArLightEstimate_create 4, ArFrame_getLightEstimate 4,
     ArLightEstimate_getState 4 AR_LIGHT_ESTIMATE_STATE_VALID,
     ArLightEstimate_getPixelIntensity 4 (1 / 2), ArLightEstimate_destroy 4,
     ArAnchor_getTrackingState 10 AR_TRACKING_STATE_TRACKING,
     GetTransformMatrixFromAnchor 10 (Mat 110),
     ObjRenderer_Draw (Mat 1) (Mat 0) (Mat 110) (1 / 2),
     ArAnchor_getTrackingState 11 AR_TRACKING_STATE_PAUSED,
     ArTrackableList_create (Some 5),
     ArSession_getAllTrackables AR_TRACKABLE_PLANE 5,
     ArTrackableList_getSize 5 3,
     ArTrackableList_acquireItem 5 0 20,
     PlaneRenderer_Draw (Mat 1) (Mat 0) 20 (GetRandomPlaneColor 17),
     ArTrackable_release 20,
     ArTrackableList_acquireItem 5 1 22,
     PlaneRenderer_Draw (Mat 1) (Mat 0) 22 (rgba_to_vec3 0x2196F3FF),
     ArTrackable_release 22,
     ArTrackableList_acquireItem 5 2 20,
     PlaneRenderer_Draw (Mat 1) (Mat 0) 20 (GetRandomPlaneColor 17),
     ArTrackable_release 20,
     ArTrackableList_destroy 5,
     ArFrame_acquirePointCloud AR_SUCCESS 6,
     PointCloudRenderer_Draw (MatMul (Mat 1) (Mat 0)) 6,
     ArPointCloud_release 6]"

section \<open>Properties\<close>

subsection \<open>A tap without a session\<close>

text \<open>
  C9: when \<open>ar_frame_\<close> or \<open>ar_session_\<close> is null, \<open>OnTouched\<close> makes no call at all
  and returns the application state it was given, so \<open>tracked_obj_set_\<close> and
  \<open>plane_color_map_\<close> are as before.
\<close>

theorem OnTouched_null_is_noop:
  "ar_frame app = None \<or> ar_session app = None \<Longrightarrow> OnTouched env x y app = Inr (app, [])"
  by (auto simp: OnTouched_def)

theorem OnTouched_null_is_noop_witness:
  "(ar_frame app_null = None \<or> ar_session app_null = None) \<and>
   OnTouched touch_env0 0 0 app_null = Inr (app_null, [])"
  using OnTouched_null_is_noop [of app_null touch_env0 0 0]
  by (simp add: app_null_def)


subsection \<open>A frame\<close>

lemma frame_eval0: "OnDrawFrame frame_env0 app0 = Inr (app0_drawn, frame_trace0)"
  by (simp add: OnDrawFrame_def frame_env0_def app0_def Let_def frame_trace0_def app0_drawn_def)


lemma rgba_component_range: "0 \<le> rgba_component c sh \<and> rgba_component c sh \<le> 1"
proof -
  have "unat (signed_drop_bit sh c AND 0xff) \<le> unat (0xff :: 32 word)"
    by (rule word_and_le1 [THEN word_le_nat_alt [THEN iffD1]])
  then have "real (unat (signed_drop_bit sh c AND 0xff)) \<le> real (unat (0xff :: 32 word))"
    by (rule of_nat_mono)
  moreover have "0 \<le> real (unat (signed_drop_bit sh c AND 0xff))"
    by (rule of_nat_0_le_iff)
  ultimately show ?thesis by (simp add: rgba_component_def)
qed

lemma run_live_append:
  "run_live L (xs @ ys) = (case run_live L xs of None \<Rightarrow> None | Some L' \<Rightarrow> run_live L' ys)"
  by (induction xs arbitrary: L) auto

lemma draw_anchors_live:
  "Anchor ` set as \<subseteq> set_mset L \<Longrightarrow> run_live L (draw_anchors env pm vm li as) = Some L"
  by (induction as) (auto simp: used_def acquired_def released_def)

lemma draw_planes_live:
  "draw_planes env pm vm pl i ps cmap k = (cmap', k', tr) \<Longrightarrow> TrackableList pl \<in># L
   \<Longrightarrow> run_live L tr = Some L"
  by (induction ps arbitrary: i cmap k cmap' k' tr)
     (auto simp: used_def acquired_def released_def Let_def split: option.splits prod.splits)

lemma draw_anchors_phase: "\<forall>e\<in>set (draw_anchors env pm vm li as). phase_of e = PhaseAnchors"
  by (induction as) (auto simp: phase_of_def)

lemma draw_planes_phase:
  "draw_planes env pm vm pl i ps cmap k = (cmap', k', tr) \<Longrightarrow> \<forall>e\<in>set tr. phase_of e = PhasePlanes"
  by (induction ps arbitrary: i cmap k cmap' k' tr)
     (auto simp: phase_of_def Let_def split: option.splits prod.splits)

lemma draw_anchors_Nil: "draw_anchors env pm vm li as = [] \<longleftrightarrow> as = []"
  by (cases as) auto

lemma OnDrawFrame_Inr:
  assumes "OnDrawFrame env app = Inr (app', tr)"
  obtains (frame) pl cmap k tr_loop tr_head where
    "trackable_list env = Some pl"
    "draw_planes env (projection_matrix env) (view_matrix env) pl 0 (plane_trackables env)
       (plane_color_map app) 0 = (cmap, k, tr_loop)"
    "app' = app\<lparr>plane_color_map := cmap, plane_count := int (length (plane_trackables env))\<rparr>"
    "tr_head =
      gl_setup @ [ArSession_update (update_status env)] @
      (if update_status env \<noteq> AR_SUCCESS
       then [LogE ''HelloArApplication::OnDrawFrame ArSession_update error''] else []) @
      [ArFrame_acquireCamera (camera env),
       ArCamera_getViewMatrix (camera env) (view_matrix env),
       ArCamera_getProjectionMatrix (camera env) (projection_matrix env),
       ArCamera_release (camera env),
       BackgroundRenderer_Draw,
       ArLightEstimate_create (light_estimate env),
       ArFrame_getLightEstimate (light_estimate env),
       ArLightEstimate_getState (light_estimate env) (light_estimate_state env)] @
      (if light_estimate_state env = AR_LIGHT_ESTIMATE_STATE_VALID
       then [ArLightEstimate_getPixelIntensity (light_estimate env) (pixel_intensity env)]
       else []) @
      [ArLightEstimate_destroy (light_estimate env)] @
      draw_anchors env (projection_matrix env) (view_matrix env) (light_intensity_of env)
        (tracked_obj_set app)"
    "tr =
      tr_head @
      [ArTrackableList_create (Some pl),
       ArSession_getAllTrackables AR_TRACKABLE_PLANE pl,
       ArTrackableList_getSize pl (length (plane_trackables env))] @
      tr_loop @
      [ArTrackableList_destroy pl,
       ArFrame_acquirePointCloud (point_cloud_status env) (point_cloud env)] @
      (if point_cloud_status env = AR_SUCCESS
       then [PointCloudRenderer_Draw (MatMul (projection_matrix env) (view_matrix env))
               (point_cloud env),
             ArPointCloud_release (point_cloud env)]
       else [])"
  using assms
  by (simp add: OnDrawFrame_def Let_def light_intensity_of_def split: option.splits prod.splits)

lemma OnDrawFrame_live:
  assumes "OnDrawFrame env app = Inr (app', tr)"
    and anchors: "Anchor ` set (tracked_obj_set app) \<subseteq> set_mset L"
  shows "run_live L tr = Some L"
  using assms(1)
proof (cases rule: OnDrawFrame_Inr)
  case (frame pl cmap k tr_loop tr_head)
  have loop: "run_live (add_mset (TrackableList pl) L) tr_loop = Some (add_mset (TrackableList pl) L)"
    by (rule draw_planes_live [OF frame(2)]) simp
  show ?thesis
    unfolding frame(5) frame(4)
    by (simp add: gl_setup_def run_live_append draw_anchors_live [OF anchors] loop
        used_def acquired_def released_def)
qed

lemma remdups_adj_same_block:
  "xs \<noteq> [] \<Longrightarrow> \<forall>x\<in>set xs. x = a \<Longrightarrow> remdups_adj (xs @ ys) = remdups_adj (a # ys)"
proof (induction xs)
  case Nil
  then show ?case by simp
next
  case (Cons x xs)
  then show ?case by (cases xs) auto
qed

lemma remdups_adj_block_after:
  assumes "xs \<noteq> []" "\<forall>x\<in>set xs. x = a" "b \<noteq> a"
  shows "remdups_adj (b # xs @ ys) = b # remdups_adj (a # ys)"
proof -
  from assms(1,2) obtain xs' where xs: "xs = a # xs'"
    by (cases xs) auto
  have "remdups_adj (xs @ ys) = remdups_adj (a # ys)"
    using assms(1,2) by (rule remdups_adj_same_block)
  with assms(3) show ?thesis
    by (simp add: xs)
qed

lemma anchors_block:
  "remdups_adj (PhaseLight # map phase_of (draw_anchors env pm vm li as) @ PhasePlanes # ys) =
    PhaseLight # (if as = [] then [] else [PhaseAnchors]) @ remdups_adj (PhasePlanes # ys)"
proof (cases "as = []")
  case True
  then show ?thesis by simp
next
  case False
  then have "map phase_of (draw_anchors env pm vm li as) \<noteq> []"
    by (simp add: draw_anchors_Nil)
  moreover have "\<forall>x\<in>set (map phase_of (draw_anchors env pm vm li as)). x = PhaseAnchors"
    using draw_anchors_phase [of env pm vm li as] by auto
  ultimately have "remdups_adj (PhaseLight # map phase_of (draw_anchors env pm vm li as) @ PhasePlanes # ys) =
      PhaseLight # remdups_adj (PhaseAnchors # PhasePlanes # ys)"
    by (rule remdups_adj_block_after) simp
  with False show ?thesis by simp
qed

lemma planes_block:
  assumes "\<forall>e\<in>set tr_loop. phase_of e = PhasePlanes"
  shows "remdups_adj (PhasePlanes # map phase_of tr_loop @ PhasePlanes # ys) =
    remdups_adj (PhasePlanes # ys)"
proof -
  have "remdups_adj ((PhasePlanes # map phase_of tr_loop) @ PhasePlanes # ys) =
      remdups_adj (PhasePlanes # PhasePlanes # ys)"
    by (rule remdups_adj_same_block) (use assms in auto)
  then show ?thesis by simp
qed

lemma OnDrawFrame_phases:
  assumes "OnDrawFrame env app = Inr (app', tr)"
  shows "remdups_adj (map phase_of tr) = [PhaseGlSetup, PhaseUpdate] @ scene_phases app"
  using assms
proof (cases rule: OnDrawFrame_Inr)
  case (frame pl cmap k tr_loop tr_head)
  note loop = planes_block [OF draw_planes_phase [OF frame(2)]]
  show ?thesis
    unfolding frame(5) frame(4)
    by (simp add: gl_setup_def phase_of_def [of "GlCall _"] scene_phases_def anchors_block loop phase_of_def)
qed

text \<open>
  C4: a frame that returns made its calls in stages, in this order: the OpenGL setup,
  \<open>ArSession_update\<close> (with its error log), the camera acquisition, the reads of the
  view and projection matrices, the camera release, the background draw, the light
  estimate, the anchor draws (when there is an anchor), the plane list and plane draws,
  and the point cloud. Started with the tracked anchors held, no call of the frame, a
  renderer's draw included, is given an object that is not held at that moment, and at
  the return the objects held are those held at entry.
\<close>

theorem OnDrawFrame_order:
  assumes "OnDrawFrame env app = Inr (app', tr)"
  shows "remdups_adj (map phase_of tr) =
      [PhaseGlSetup, PhaseUpdate, PhaseCameraAcquire, PhaseCameraMatrices, PhaseCameraRelease,
       PhaseBackground, PhaseLight] @
      (if tracked_obj_set app = [] then [] else [PhaseAnchors]) @
      [PhasePlanes, PhasePointCloud] \<and>
    run_live (mset (map Anchor (tracked_obj_set app))) tr =
      Some (mset (map Anchor (tracked_obj_set app)))"
proof
  show "remdups_adj (map phase_of tr) =
      [PhaseGlSetup, PhaseUpdate, PhaseCameraAcquire, PhaseCameraMatrices, PhaseCameraRelease,
       PhaseBackground, PhaseLight] @
      (if tracked_obj_set app = [] then [] else [PhaseAnchors]) @
      [PhasePlanes, PhasePointCloud]"
    using OnDrawFrame_phases [OF assms] by (simp add: scene_phases_def)
  show "run_live (mset (map Anchor (tracked_obj_set app))) tr =
      Some (mset (map Anchor (tracked_obj_set app)))"
    by (rule OnDrawFrame_live [OF assms]) simp
qed

theorem OnDrawFrame_order_witness:
  "OnDrawFrame frame_env0 app0 = Inr (app0_drawn, frame_trace0) \<and>
   remdups_adj (map phase_of frame_trace0) =
     [PhaseGlSetup, PhaseUpdate, PhaseCameraAcquire, PhaseCameraMatrices, PhaseCameraRelease,
      PhaseBackground, PhaseLight, PhaseAnchors, PhasePlanes, PhasePointCloud] \<and>
   run_live {#Anchor 10, Anchor 11#} frame_trace0 = Some {#Anchor 10, Anchor 11#}"
  using frame_eval0 OnDrawFrame_order [OF frame_eval0]
  by (simp add: app0_def)

lemma OnDrawFrame_returns:
  assumes "trackable_list env = Some pl"
  shows "\<exists>app' tr. OnDrawFrame env app = Inr (app', tr)"
  using assms by (simp add: OnDrawFrame_def Let_def split: prod.splits)

text \<open>
  C5: when the plane list was created, the frame returns, and its calls end with
  \<open>ArFrame_acquirePointCloud\<close> followed, when the status is \<open>AR_SUCCESS\<close>, by the
  point-cloud draw and then \<open>ArPointCloud_release\<close>, and by nothing for any other
  status; no call before them is a point-cloud call.
\<close>

theorem OnDrawFrame_point_cloud:
  assumes "trackable_list env \<noteq> None"
  shows "\<exists>app' pre. OnDrawFrame env app =
      Inr (app',
           pre @ ArFrame_acquirePointCloud (point_cloud_status env) (point_cloud env) #
           (if point_cloud_status env = AR_SUCCESS
            then [PointCloudRenderer_Draw (MatMul (projection_matrix env) (view_matrix env))
                    (point_cloud env),
                  ArPointCloud_release (point_cloud env)]
            else [])) \<and>
      (\<forall>e\<in>set pre. phase_of e \<noteq> PhasePointCloud)"
proof -
  from assms obtain pl where "trackable_list env = Some pl" by auto
  then obtain app' tr where r: "OnDrawFrame env app = Inr (app', tr)"
    using OnDrawFrame_returns by blast
  then show ?thesis
  proof (cases rule: OnDrawFrame_Inr)
    case (frame pl cmap k tr_loop tr_head)
    have loop: "\<forall>e\<in>set tr_loop. phase_of e = PhasePlanes"
      by (rule draw_planes_phase [OF frame(2)])
    have andy: "\<forall>e\<in>set (draw_anchors env (projection_matrix env) (view_matrix env)
        (light_intensity_of env) (tracked_obj_set app)). phase_of e = PhaseAnchors"
      by (rule draw_anchors_phase)
    define pre where "pre =
      tr_head @
      [ArTrackableList_create (Some pl),
       ArSession_getAllTrackables AR_TRACKABLE_PLANE pl,
       ArTrackableList_getSize pl (length (plane_trackables env))] @
      tr_loop @ [ArTrackableList_destroy pl]"
    have split: "tr = pre @ ArFrame_acquirePointCloud (point_cloud_status env) (point_cloud env) #
           (if point_cloud_status env = AR_SUCCESS
            then [PointCloudRenderer_Draw (MatMul (projection_matrix env) (view_matrix env))
                    (point_cloud env),
                  ArPointCloud_release (point_cloud env)]
            else [])"
      unfolding pre_def frame(5) by simp
    have "\<forall>e\<in>set pre. phase_of e \<noteq> PhasePointCloud"
      unfolding pre_def frame(4) using loop andy
      by (auto simp: gl_setup_def phase_of_def)
    with r split show ?thesis by blast
  qed
qed

theorem OnDrawFrame_point_cloud_witness:
  "trackable_list frame_env0 \<noteq> None \<and>
   (\<exists>app' pre. OnDrawFrame frame_env0 app0 =
      Inr (app',
           pre @ ArFrame_acquirePointCloud (point_cloud_status frame_env0) (point_cloud frame_env0) #
           (if point_cloud_status frame_env0 = AR_SUCCESS
            then [PointCloudRenderer_Draw
                    (MatMul (projection_matrix frame_env0) (view_matrix frame_env0))
                    (point_cloud frame_env0),
                  ArPointCloud_release (point_cloud frame_env0)]
            else [])) \<and>
      (\<forall>e\<in>set pre. phase_of e \<noteq> PhasePointCloud)) \<and>
   (\<exists>app' pre. OnDrawFrame (frame_env0\<lparr>point_cloud_status := AR_ERROR 2\<rparr>) app0 =
      Inr (app', pre @ [ArFrame_acquirePointCloud (AR_ERROR 2) 6]) \<and>
      (\<forall>e\<in>set pre. phase_of e \<noteq> PhasePointCloud))"
proof -
  have h: "trackable_list frame_env0 \<noteq> None"
    by (simp add: frame_env0_def)
  have h': "trackable_list (frame_env0\<lparr>point_cloud_status := AR_ERROR 2\<rparr>) \<noteq> None"
    by (simp add: frame_env0_def)
  have "\<exists>app' pre. OnDrawFrame (frame_env0\<lparr>point_cloud_status := AR_ERROR 2\<rparr>) app0 =
      Inr (app', pre @ [ArFrame_acquirePointCloud (AR_ERROR 2) 6]) \<and>
      (\<forall>e\<in>set pre. phase_of e \<noteq> PhasePointCloud)"
    using OnDrawFrame_point_cloud [OF h', of app0] by (simp add: frame_env0_def)
  with h OnDrawFrame_point_cloud [OF h, of app0] show ?thesis
    by blast
qed

lemma draw_anchors_andy_calls:
  "filter is_andy_call (draw_anchors env pm vm li as) =
    concat (map (\<lambda>a. [GetTransformMatrixFromAnchor a (anchor_transform env a),
                       ObjRenderer_Draw pm vm (anchor_transform env a) li])
      (filter (\<lambda>a. anchor_state env a = AR_TRACKING_STATE_TRACKING) as))"
  by (induction as) (auto simp: is_andy_call_def)

lemma draw_planes_no_andy:
  "draw_planes env pm vm pl i ps cmap k = (cmap', k', tr) \<Longrightarrow> filter is_andy_call tr = []"
  by (induction ps arbitrary: i cmap k cmap' k' tr)
     (auto simp: is_andy_call_def Let_def split: option.splits prod.splits)

text \<open>
  C7: the calls of a frame that put an Andy on the screen are, for each anchor of
  \<open>tracked_obj_set_\<close> whose tracking state read in this frame is
  \<open>AR_TRACKING_STATE_TRACKING\<close>, in the order of the set, the read of its transform
  followed by one draw with that transform, and no other; the set itself is unchanged.
\<close>

theorem OnDrawFrame_andy_draws:
  assumes "OnDrawFrame env app = Inr (app', tr)"
  shows "filter is_andy_call tr =
      concat (map (\<lambda>a. [GetTransformMatrixFromAnchor a (anchor_transform env a),
                         ObjRenderer_Draw (projection_matrix env) (view_matrix env)
                           (anchor_transform env a) (light_intensity_of env)])
        (filter (\<lambda>a. anchor_state env a = AR_TRACKING_STATE_TRACKING) (tracked_obj_set app))) \<and>
    tracked_obj_set app' = tracked_obj_set app"
  using assms
proof (cases rule: OnDrawFrame_Inr)
  case (frame pl cmap k tr_loop tr_head)
  show ?thesis
    unfolding frame(5) frame(4) frame(3)
    by (simp add: gl_setup_def draw_anchors_andy_calls draw_planes_no_andy [OF frame(2)]
        is_andy_call_def)
qed

theorem OnDrawFrame_andy_draws_witness:
  "OnDrawFrame frame_env0 app0 = Inr (app0_drawn, frame_trace0) \<and>
   filter is_andy_call frame_trace0 =
     [GetTransformMatrixFromAnchor 10 (Mat 110),
      ObjRenderer_Draw (Mat 1) (Mat 0) (Mat 110) (1 / 2)] \<and>
   tracked_obj_set app0_drawn = [10, 11]"
  using frame_eval0 OnDrawFrame_andy_draws [OF frame_eval0]
  by (simp add: frame_env0_def app0_def light_intensity_of_def)

lemma palette_range:
  assumes "c \<in> palette"
  shows "0 \<le> fst c \<and> fst c \<le> 1 \<and> 0 \<le> fst (snd c) \<and> fst (snd c) \<le> 1 \<and>
    0 \<le> snd (snd c) \<and> snd (snd c) \<le> 1"
  using assms rgba_component_range by (auto simp: palette_def rgba_to_vec3_def)

lemma index_in_bounds: "r mod kPlaneColorRgbaSize < length kPlaneColorRgba"
  by (simp add: kPlaneColorRgbaSize_def kPlaneColorRgba_def)

lemma GetRandomPlaneColor_in_palette: "GetRandomPlaneColor r \<in> palette"
  unfolding GetRandomPlaneColor_def palette_def
  using index_in_bounds [of r] by (intro imageI nth_mem)

lemma draw_planes_keeps:
  "draw_planes env pm vm pl i ps cmap k = (cmap', k', tr) \<Longrightarrow> cmap p = Some c
   \<Longrightarrow> cmap' p = Some c"
proof (induction ps arbitrary: i cmap k cmap' k' tr)
  case Nil
  then show ?case by simp
next
  case (Cons q ps)
  show ?case
  proof (cases "cmap q")
    case None
    with Cons.prems(2) have "(cmap(q \<mapsto> GetRandomPlaneColor (rand_values env k))) p = Some c"
      by auto
    with Cons.IH Cons.prems(1) None show ?thesis
      by (auto simp: Let_def split: prod.splits)
  next
    case (Some d)
    with Cons show ?thesis
      by (auto simp: Let_def split: prod.splits)
  qed
qed

lemma draw_planes_dom:
  "draw_planes env pm vm pl i ps cmap k = (cmap', k', tr) \<Longrightarrow> dom cmap' = dom cmap \<union> set ps"
  by (induction ps arbitrary: i cmap k cmap' k' tr)
     (auto simp: Let_def split: option.splits prod.splits)

lemma draw_planes_ran:
  "draw_planes env pm vm pl i ps cmap k = (cmap', k', tr) \<Longrightarrow> ran cmap \<subseteq> palette
   \<Longrightarrow> ran cmap' \<subseteq> palette"
proof (induction ps arbitrary: i cmap k cmap' k' tr)
  case Nil
  then show ?case by simp
next
  case (Cons p ps)
  show ?case
  proof (cases "cmap p")
    case None
    have "ran (cmap(p \<mapsto> GetRandomPlaneColor (rand_values env k))) \<subseteq> palette"
      using Cons.prems(2) None GetRandomPlaneColor_in_palette by (simp add: ran_map_upd)
    with Cons.IH Cons.prems(1) None show ?thesis
      by (auto simp: Let_def split: prod.splits)
  next
    case (Some c)
    with Cons show ?thesis
      by (auto simp: Let_def split: prod.splits)
  qed
qed

lemma draw_planes_draws:
  "draw_planes env pm vm pl i ps cmap k = (cmap', k', tr) \<Longrightarrow>
   PlaneRenderer_Draw pm' vm' p c \<in> set tr \<Longrightarrow> cmap' p = Some c \<and> p \<in> set ps"
proof (induction ps arbitrary: i cmap k cmap' k' tr)
  case Nil
  then show ?case by simp
next
  case (Cons q ps)
  show ?case
  proof (cases "cmap q")
    case None
    from Cons.prems None obtain tr' where
      rec: "draw_planes env pm vm pl (Suc i) ps (cmap(q \<mapsto> GetRandomPlaneColor (rand_values env k)))
              (Suc k) = (cmap', k', tr')"
      and mem: "(p = q \<and> c = GetRandomPlaneColor (rand_values env k)) \<or>
                PlaneRenderer_Draw pm' vm' p c \<in> set tr'"
      by (auto simp: Let_def split: prod.splits)
    from mem show ?thesis
    proof
      assume "p = q \<and> c = GetRandomPlaneColor (rand_values env k)"
      then show ?thesis using draw_planes_keeps [OF rec, of q c] by simp
    next
      assume "PlaneRenderer_Draw pm' vm' p c \<in> set tr'"
      then show ?thesis using Cons.IH [OF rec] by simp
    qed
  next
    case (Some d)
    from Cons.prems Some obtain tr' where
      rec: "draw_planes env pm vm pl (Suc i) ps cmap k = (cmap', k', tr')"
      and mem: "(p = q \<and> c = d) \<or> PlaneRenderer_Draw pm' vm' p c \<in> set tr'"
      by (auto simp: Let_def split: prod.splits)
    from mem show ?thesis
    proof
      assume "p = q \<and> c = d"
      then show ?thesis using draw_planes_keeps [OF rec, of q d] Some by simp
    next
      assume "PlaneRenderer_Draw pm' vm' p c \<in> set tr'"
      then show ?thesis using Cons.IH [OF rec] by simp
    qed
  qed
qed

lemma draw_anchors_no_plane_draw:
  "PlaneRenderer_Draw pm' vm' p c \<notin> set (draw_anchors env pm vm li as)"
  by (induction as) auto

text \<open>
  C8: the index \<open>std::rand() % kPlaneColorRgbaSize\<close> is within the table, and
  \<open>GetRandomPlaneColor\<close> returns the conversion of one of its 16 entries. In a frame
  started with every stored colour among these, each plane draw uses the colour that
  \<open>plane_color_map_\<close> holds for that plane after the frame, a colour of the table
  whose three components are in \<open>[0, 1]\<close>; an entry present before the frame is the
  same after it; the planes of the frame all have an entry afterwards; and every stored
  colour is still among those of the table.
\<close>

theorem OnDrawFrame_plane_colors:
  assumes "OnDrawFrame env app = Inr (app', tr)"
    and "ran (plane_color_map app) \<subseteq> palette"
  shows "(\<forall>r. r mod kPlaneColorRgbaSize < length kPlaneColorRgba \<and> GetRandomPlaneColor r \<in> palette) \<and>
    (\<forall>pm vm p c. PlaneRenderer_Draw pm vm p c \<in> set tr \<longrightarrow>
        plane_color_map app' p = Some c \<and> c \<in> palette \<and>
        0 \<le> fst c \<and> fst c \<le> 1 \<and> 0 \<le> fst (snd c) \<and> fst (snd c) \<le> 1 \<and>
        0 \<le> snd (snd c) \<and> snd (snd c) \<le> 1) \<and>
    (\<forall>p c. plane_color_map app p = Some c \<longrightarrow> plane_color_map app' p = Some c) \<and>
    dom (plane_color_map app') = dom (plane_color_map app) \<union> set (plane_trackables env) \<and>
    ran (plane_color_map app') \<subseteq> palette"
  using assms(1)
proof (cases rule: OnDrawFrame_Inr)
  case (frame pl cmap k tr_loop tr_head)
  have map': "plane_color_map app' = cmap"
    by (simp add: frame(3))
  have ran': "ran cmap \<subseteq> palette"
    by (rule draw_planes_ran [OF frame(2) assms(2)])
  have draws: "cmap p = Some c \<and> c \<in> palette"
    if "PlaneRenderer_Draw pm vm p c \<in> set tr" for pm vm p c
  proof -
    from that have "PlaneRenderer_Draw pm vm p c \<in> set tr_loop"
      unfolding frame(5) frame(4)
      by (auto simp: gl_setup_def draw_anchors_no_plane_draw split: if_splits)
    then have "cmap p = Some c"
      using draw_planes_draws [OF frame(2)] by blast
    with ran' show ?thesis by (auto simp: ran_def)
  qed
  show ?thesis
    unfolding map'
    using draws palette_range index_in_bounds GetRandomPlaneColor_in_palette
      draw_planes_keeps [OF frame(2)] draw_planes_dom [OF frame(2)] ran'
    by (intro conjI allI impI) blast+
qed

theorem OnDrawFrame_plane_colors_witness:
  "OnDrawFrame frame_env0 app0 = Inr (app0_drawn, frame_trace0) \<and>
   ran (plane_color_map app0) \<subseteq> palette \<and>
   PlaneRenderer_Draw (Mat 1) (Mat 0) 20 (GetRandomPlaneColor 17) \<in> set frame_trace0 \<and>
   plane_color_map app0_drawn 20 = Some (GetRandomPlaneColor 17) \<and>
   GetRandomPlaneColor 17 \<in> palette \<and>
   plane_color_map app0 22 = Some (rgba_to_vec3 0x2196F3FF) \<and>
   plane_color_map app0_drawn 22 = Some (rgba_to_vec3 0x2196F3FF) \<and>
   dom (plane_color_map app0_drawn) = dom (plane_color_map app0) \<union> set (plane_trackables frame_env0)"
proof -
  have inv: "ran (plane_color_map app0) \<subseteq> palette"
    by (simp add: app0_def palette_def kPlaneColorRgba_def)
  have draw: "PlaneRenderer_Draw (Mat 1) (Mat 0) 20 (GetRandomPlaneColor 17) \<in> set frame_trace0"
    by (simp add: frame_trace0_def)
  have old: "plane_color_map app0 22 = Some (rgba_to_vec3 0x2196F3FF)"
    by (simp add: app0_def)
  from frame_eval0 inv draw old OnDrawFrame_plane_colors [OF frame_eval0 inv] show ?thesis
    by blast
qed

lemma draw_anchors_update_status:
  "draw_anchors (env\<lparr>update_status := s\<rparr>) pm vm li as = draw_anchors env pm vm li as"
  by (induction as) auto

lemma draw_planes_update_status:
  "draw_planes (env\<lparr>update_status := s\<rparr>) pm vm pl i ps cmap k =
    draw_planes env pm vm pl i ps cmap k"
  by (induction ps arbitrary: i cmap k) (auto simp: Let_def split: option.splits prod.splits)

text \<open>
  C10: when \<open>ArSession_update\<close> returns a status other than \<open>AR_SUCCESS\<close> (and the
  plane list is created), the frame logs the error and goes on: the calls after the log
  and the application state at the return are those of the same frame with a successful
  update, and they run through every stage from the camera to the point cloud.
\<close>

theorem OnDrawFrame_update_error:
  assumes "update_status env \<noteq> AR_SUCCESS" and "trackable_list env \<noteq> None"
  shows "\<exists>app' scene.
    OnDrawFrame env app =
      Inr (app',
           gl_setup @
           [ArSession_update (update_status env),
            LogE ''HelloArApplication::OnDrawFrame ArSession_update error''] @ scene) \<and>
    OnDrawFrame (env\<lparr>update_status := AR_SUCCESS\<rparr>) app =
      Inr (app', gl_setup @ [ArSession_update AR_SUCCESS] @ scene) \<and>
    remdups_adj (map phase_of scene) = scene_phases app"
proof -
  from assms(2) obtain pl where "trackable_list env = Some pl" by auto
  then obtain app' tr where r: "OnDrawFrame env app = Inr (app', tr)"
    using OnDrawFrame_returns by blast
  define scene where "scene = drop (length gl_setup + 2) tr"
  have tr: "tr = gl_setup @
           [ArSession_update (update_status env),
            LogE ''HelloArApplication::OnDrawFrame ArSession_update error''] @ scene"
    using r assms(1) unfolding scene_def
    by (auto simp: OnDrawFrame_def Let_def split: option.splits prod.splits)
  have ok: "OnDrawFrame (env\<lparr>update_status := AR_SUCCESS\<rparr>) app =
      Inr (app', gl_setup @ [ArSession_update AR_SUCCESS] @ scene)"
    using r assms(1) unfolding scene_def
    by (auto simp: OnDrawFrame_def Let_def draw_anchors_update_status draw_planes_update_status
        split: option.splits prod.splits)
  have "remdups_adj (map phase_of tr) = [PhaseGlSetup, PhaseUpdate] @ scene_phases app"
    by (rule OnDrawFrame_phases [OF r])
  moreover have "scene \<noteq> [] \<and> phase_of (hd scene) = PhaseCameraAcquire"
    using r assms(1) unfolding scene_def
    by (auto simp: OnDrawFrame_def Let_def phase_of_def split: option.splits prod.splits)
  then obtain e rest where scene: "scene = e # rest" and e: "phase_of e = PhaseCameraAcquire"
    by (cases scene) auto
  ultimately have "remdups_adj (map phase_of scene) = scene_phases app"
    unfolding tr by (simp add: gl_setup_def phase_of_def [of "GlCall _"]
        phase_of_def [of "ArSession_update _"] phase_of_def [of "LogE _"] scene e)
  with r tr ok show ?thesis by blast
qed

theorem OnDrawFrame_update_error_witness:
  "update_status frame_env0 \<noteq> AR_SUCCESS \<and> trackable_list frame_env0 \<noteq> None \<and>
   (\<exists>app' scene.
      OnDrawFrame frame_env0 app0 =
        Inr (app',
             gl_setup @
             [ArSession_update (update_status frame_env0),
              LogE ''HelloArApplication::OnDrawFrame ArSession_update error''] @ scene) \<and>
      OnDrawFrame (frame_env0\<lparr>update_status := AR_SUCCESS\<rparr>) app0 =
        Inr (app', gl_setup @ [ArSession_update AR_SUCCESS] @ scene) \<and>
      remdups_adj (map phase_of scene) = scene_phases app0)"
proof -
  have u: "update_status frame_env0 \<noteq> AR_SUCCESS" and t: "trackable_list frame_env0 \<noteq> None"
    by (simp_all add: frame_env0_def)
  from u t OnDrawFrame_update_error [OF u t, of app0] show ?thesis
    by blast
qed



subsection \<open>A tap\<close>




lemma picked_cong: "(\<And>j. j < length hs \<Longrightarrow> P j = Q j) \<Longrightarrow> picked P hs = picked Q hs"
  unfolding picked_def by auto








lemma touch_eval1: "OnTouched touch_env1 0 0 app0 = Inr (app0, touch_trace1)"
  by (simp add: OnTouched_def touch_env1_def app0_def hit_point_def hit_body_def Let_def
      touch_trace1_def)

lemma touch_eval2:
  "OnTouched touch_env2 0 0 app0 = Inr (app0\<lparr>tracked_obj_set := [10, 11, 40, 41]\<rparr>, touch_trace2)"
  by (simp add: OnTouched_def touch_env2_def app0_def hit_a_def hit_b_def hit_body_def Let_def
      set_insert_def touch_trace2_def)




text \<open>
  C1, where the code departs from it: a tap whose only hit result lies on a point, not on
  a plane. The hit result created at line 224 is still held when \<open>OnTouched\<close> returns:
  the \<open>continue\<close> at line 239 skips the \<open>ArHitResult_destroy\<close> of line 272.
\<close>

theorem OnTouched_leaks_hit_result:
  "OnTouched touch_env1 0 0 app0 = Inr (app0, touch_trace1) \<and>
   leaked touch_trace1 = {#HitResult 31#}"
proof
  show "OnTouched touch_env1 0 0 app0 = Inr (app0, touch_trace1)"
    by (rule touch_eval1)
  show "leaked touch_trace1 = {#HitResult 31#}"
    by (simp add: leaked_def touch_trace1_def acquired_def released_def)
qed

text \<open>
  C3, where the code departs from it: a tap with two hit results that both pass the four
  tests. The loop has no \<open>break\<close> after line 271, so both anchors, 40 and 41, are
  inserted by the one call.
\<close>

theorem OnTouched_places_two_anchors:
  "OnTouched touch_env2 0 0 app0 = Inr (app0\<lparr>tracked_obj_set := [10, 11, 40, 41]\<rparr>, touch_trace2) \<and>
   tracked_obj_set app0 = [10, 11] \<and>
   card (set [10, 11, 40, 41 :: handle] - set (tracked_obj_set app0)) = 2"
proof -
  have "set [10, 11, 40, 41 :: handle] - set [10, 11] = {40, 41}"
    by auto
  then show ?thesis
    using touch_eval2 by (simp add: app0_def)
qed

subsection \<open>Construction\<close>

text \<open>
  C6: the constructor returns an object only after this sequence of calls, each of which
  succeeded: \<open>ArSession_create\<close>, \<open>ArConfig_create\<close>, \<open>ArSession_checkSupported\<close>,
  \<open>ArSession_configure\<close>, \<open>ArConfig_destroy\<close>, \<open>ArFrame_create\<close>; then
  \<open>ar_session_\<close> and \<open>ar_frame_\<close> are non-null. It ends in a failed \<open>CHECK\<close>
  exactly when one of the calls failed or left its result null.
\<close>

theorem ctor_sequence:
  "(\<forall>app tr. HelloArApplication_ctor env members = Inr (app, tr) \<longrightarrow>
      ar_session app \<noteq> None \<and> ar_frame app \<noteq> None \<and>
      (\<exists>s c f. session_out env = Some s \<and> config_out env = Some c \<and> frame_out env = Some f \<and>
         ar_session app = Some s \<and> ar_frame app = Some f \<and>
         tr = [ArSession_create AR_SUCCESS (Some s), ArConfig_create (Some c),
               ArSession_checkSupported c AR_SUCCESS, ArSession_configure c AR_SUCCESS,
               ArConfig_destroy c, ArFrame_create (Some f)])) \<and>
   ((\<exists>e. HelloArApplication_ctor env members = Inl e) \<longleftrightarrow>
      (session_create_status env \<noteq> AR_SUCCESS \<or> session_out env = None \<or>
       config_out env = None \<or> check_supported_status env \<noteq> AR_SUCCESS \<or>
       configure_status env \<noteq> AR_SUCCESS \<or> frame_out env = None))"
  by (auto simp: HelloArApplication_ctor_def split: option.splits)

theorem ctor_sequence_witness:
  "HelloArApplication_ctor ctor_env0 members0 =
     Inr (members0\<lparr>ar_session := Some 1, ar_frame := Some 2\<rparr>,
          [ArSession_create AR_SUCCESS (Some 1), ArConfig_create (Some 7),
           ArSession_checkSupported 7 AR_SUCCESS, ArSession_configure 7 AR_SUCCESS,
           ArConfig_destroy 7, ArFrame_create (Some 2)]) \<and>
   ar_session (members0\<lparr>ar_session := Some 1, ar_frame := Some 2\<rparr>) \<noteq> None \<and>
   ar_frame (members0\<lparr>ar_session := Some 1, ar_frame := Some 2\<rparr>) \<noteq> None \<and>
   \<not> (\<exists>e. HelloArApplication_ctor ctor_env0 members0 = Inl e) \<and>
   (\<exists>e. HelloArApplication_ctor (ctor_env0\<lparr>frame_out := None\<rparr>) members0 = Inl e)"
  using ctor_sequence [of ctor_env0 members0]
    ctor_sequence [of "ctor_env0\<lparr>frame_out := None\<rparr>" members0]
  by (simp add: ctor_env0_def HelloArApplication_ctor_def)

end
